theory Spec2Isabelle
  imports Complex_Main "HOL-Library.Word" "HOL-Library.Sublist"
begin

section \<open>Go values used by \<open>game/rules.go\<close>\<close>

text \<open>
  Go's \<open>int\<close> is modelled at its 64-bit width (two's complement, \<open>*\<close> wraps).
  A \<open>float32\<close> is its IEEE-754 binary32 bit pattern, split into the three fields:
  sign, biased exponent (8 bits) and fraction (23 bits); every value of the datatype is
  a \<open>float32\<close> the program can hold and conversely.
  A Go \<open>string\<close> is a byte sequence: \<open>string\<close> (\<open>char list\<close>, 8-bit characters).
  An \<open>error\<close> built by \<open>errors.New\<close> or \<open>fmt.Errorf\<close> is the text its
  \<open>Error()\<close> method returns; the \<open>nil\<close> error is \<open>None\<close>.
\<close>

type_synonym go_int = "64 word"

datatype float32 = Float32 (f_sign: bool) (f_exp: "8 word") (f_frac: "23 word")

datatype error = errorString (Error: string)

subsection \<open>The enumeration constants (\<open>iota\<close> blocks)\<close>

definition KO_SIMPLE :: go_int where "KO_SIMPLE = 0"
definition KO_POSITIONAL :: go_int where "KO_POSITIONAL = 1"
definition KO_SITUATIONAL :: go_int where "KO_SITUATIONAL = 2"
definition KO_SPIGHT :: go_int where "KO_SPIGHT = 3"

definition SCORE_AREA :: go_int where "SCORE_AREA = 0"
definition SCORE_TERRITORY :: go_int where "SCORE_TERRITORY = 1"

definition TAX_NONE :: go_int where "TAX_NONE = 0"
definition TAX_SEKI :: go_int where "TAX_SEKI = 1"
definition TAX_ALL :: go_int where "TAX_ALL = 2"

definition WHB_ZERO :: go_int where "WHB_ZERO = 0"
definition WHB_N :: go_int where "WHB_N = 1"
definition WHB_N_MINUS_ONE :: go_int where "WHB_N_MINUS_ONE = 2"

subsection \<open>The \<open>Rules\<close> struct, pointers to it and the heap\<close>

record Rules =
  KoRule :: go_int
  ScoringRule :: go_int
  TaxRule :: go_int
  WhiteHandicapBonus :: go_int
  MultiStoneSuicide :: bool
  HasButton :: bool
  FriendlyPassOk :: bool
  Komi :: float32

text \<open>
  Every method has the receiver \<open>r *Rules\<close>. The heap is the list of the \<open>Rules\<close>
  objects allocated so far, a pointer is \<open>nil\<close> (\<open>None\<close>) or the index of an object,
  and \<open>&Rules{...}\<close> appends a fresh object. Reading or writing a field through
  \<open>nil\<close> is Go's run-time panic. (A pointer beyond the heap cannot arise in Go; the
  model treats it like \<open>nil\<close>.)
\<close>

type_synonym ptr = "nat option"
type_synonym heap = "Rules list"

datatype go_panic = NilDereference

definition load :: "heap \<Rightarrow> ptr \<Rightarrow> go_panic + Rules" where
  "load h p =
     (case p of
        None \<Rightarrow> Inl NilDereference
      | Some a \<Rightarrow> if a < length h then Inr (h ! a) else Inl NilDereference)"

definition update :: "heap \<Rightarrow> ptr \<Rightarrow> (Rules \<Rightarrow> Rules) \<Rightarrow> go_panic + heap" where
  "update h p f =
     (case p of
        None \<Rightarrow> Inl NilDereference
      | Some a \<Rightarrow> if a < length h then Inr (h[a := f (h ! a)]) else Inl NilDereference)"

definition alloc :: "heap \<Rightarrow> Rules \<Rightarrow> heap \<times> ptr" where
  "alloc h v = (h @ [v], Some (length h))"

section \<open>\<open>float32\<close> arithmetic\<close>

text \<open>
  A finite \<open>float32\<close> is \<open>\<plusminus> f_mant * 2 ^ f_bexp\<close>: the exponent field 0 holds zero
  and the subnormal numbers, the fields 1 to 254 the normal numbers (with the hidden
  bit), and the field 255 the infinities (fraction 0) and the NaNs.
\<close>

definition is_nan :: "float32 \<Rightarrow> bool" where
  "is_nan x = (f_exp x = 255 \<and> f_frac x \<noteq> 0)"

definition is_inf :: "float32 \<Rightarrow> bool" where
  "is_inf x = (f_exp x = 255 \<and> f_frac x = 0)"

definition is_finite :: "float32 \<Rightarrow> bool" where
  "is_finite x = (f_exp x \<noteq> 255)"

definition f_mant :: "float32 \<Rightarrow> nat" where
  "f_mant x = (if f_exp x = 0 then unat (f_frac x) else 2 ^ 23 + unat (f_frac x))"

definition f_bexp :: "float32 \<Rightarrow> int" where
  "f_bexp x = (if f_exp x = 0 then - 149 else int (unat (f_exp x)) - 150)"

definition pow2 :: "int \<Rightarrow> rat" where
  "pow2 e = (if 0 \<le> e then 2 ^ nat e else 1 / 2 ^ nat (- e))"

definition f_val :: "float32 \<Rightarrow> rat" where
  "f_val x = (if f_sign x then - 1 else 1) * of_nat (f_mant x) * pow2 (f_bexp x)"

text \<open>\<open>math.IsInf(f, sign)\<close>; the conversion to \<open>float64\<close> before it is exact.\<close>

definition math_IsInf :: "float32 \<Rightarrow> int \<Rightarrow> bool" where
  "math_IsInf f sign =
     (if is_inf f then (if 0 < sign then \<not> f_sign f else if sign < 0 then f_sign f else True)
      else False)"

text \<open>
  The comparison \<open>==\<close> of two \<open>float32\<close>: a NaN equals nothing, an infinity equals
  the infinity of its sign, finite numbers are compared by value (so \<open>-0 == +0\<close>).
\<close>

definition f32_eq :: "float32 \<Rightarrow> float32 \<Rightarrow> bool" where
  "f32_eq a b =
     (if is_nan a \<or> is_nan b then False
      else if is_inf a \<or> is_inf b then is_inf a \<and> is_inf b \<and> f_sign a = f_sign b
      else f_val a = f_val b)"

text \<open>
  The product \<open>komi*2\<close> in \<open>float32\<close>. Doubling is exact: a normal number gets the
  next exponent (the largest one overflows to the infinity), a subnormal number shifts
  its fraction into the exponent field, infinities and NaNs stay.
\<close>

definition f32_mul2 :: "float32 \<Rightarrow> float32" where
  "f32_mul2 x =
     (if f_exp x = 255 then x
      else if f_exp x = 254 then Float32 (f_sign x) 255 0
      else if f_exp x = 0 then
        (if unat (f_frac x) < 2 ^ 22 then Float32 (f_sign x) 0 (2 * f_frac x)
         else Float32 (f_sign x) 1 (2 * f_frac x))
      else Float32 (f_sign x) (f_exp x + 1) (f_frac x))"

text \<open>
  The conversion \<open>int(komi)\<close> truncates towards zero. Where the truncated value does
  not fit the \<open>int\<close> (and for infinities and NaNs) Go leaves the result to the
  implementation: the parameter \<open>oor\<close> is what the platform yields there.
\<close>

definition f_trunc :: "float32 \<Rightarrow> int" where
  "f_trunc x =
     (if f_sign x then - 1 else 1) *
     (if 0 \<le> f_bexp x then int (f_mant x) * 2 ^ nat (f_bexp x)
      else int (f_mant x) div 2 ^ nat (- f_bexp x))"

definition f32_to_int :: "(float32 \<Rightarrow> go_int) \<Rightarrow> float32 \<Rightarrow> go_int" where
  "f32_to_int oor x =
     (if is_finite x \<and> - (2 ^ 63) \<le> f_trunc x \<and> f_trunc x < 2 ^ 63
      then word_of_int (f_trunc x) else oor x)"

text \<open>
  The conversion \<open>float32(n)\<close> of an \<open>int\<close> rounds to the nearest number with a
  24-bit significand, ties to the even one.
\<close>

fun bit_length :: "nat \<Rightarrow> nat" where
  "bit_length n = (if n = 0 then 0 else Suc (bit_length (n div 2)))"

definition round_half_even :: "nat \<Rightarrow> nat \<Rightarrow> nat" where
  "round_half_even a k =
     (if 2 * (a mod 2 ^ k) > 2 ^ k \<or> (2 * (a mod 2 ^ k) = 2 ^ k \<and> odd (a div 2 ^ k))
      then a div 2 ^ k + 1 else a div 2 ^ k)"

definition int_to_f32 :: "go_int \<Rightarrow> float32" where
  "int_to_f32 n =
     (let a = nat \<bar>sint n\<bar>; l = bit_length a;
          m = (if l \<le> 24 then a * 2 ^ (24 - l) else round_half_even a (l - 24))
      in if a = 0 then Float32 False 0 0
         else if m = 2 ^ 24 then Float32 (sint n < 0) (of_nat (127 + l)) 0
         else Float32 (sint n < 0) (of_nat (126 + l)) (of_nat (m - 2 ^ 23)))"

section \<open>Enumeration parsers and writers\<close>

definition parseKoRule :: "string \<Rightarrow> go_int \<times> error option" where
  "parseKoRule s =
     (if s = ''SIMPLE'' then (KO_SIMPLE, None)
      else if s = ''POSITIONAL'' then (KO_POSITIONAL, None)
      else if s = ''SITUATIONAL'' then (KO_SITUATIONAL, None)
      else if s = ''SPIGHT'' then (KO_SPIGHT, None)
      else (- 1, Some (errorString ''invalid Ko Rule'')))"

definition parseScoringRule :: "string \<Rightarrow> go_int \<times> error option" where
  "parseScoringRule s =
     (if s = ''AREA'' then (SCORE_AREA, None)
      else if s = ''TERRITORY'' then (SCORE_TERRITORY, None)
      else (- 1, Some (errorString ''invalid Scoring Rule'')))"

definition parseTaxRule :: "string \<Rightarrow> go_int \<times> error option" where
  "parseTaxRule s =
     (if s = ''NONE'' then (TAX_NONE, None)
      else if s = ''SEKI'' then (TAX_SEKI, None)
      else if s = ''ALL'' then (TAX_ALL, None)
      else (- 1, Some (errorString ''invalid Tax Rule'')))"

definition parseWhiteHandicapBonus :: "string \<Rightarrow> go_int \<times> error option" where
  "parseWhiteHandicapBonus s =
     (if s = ''ZERO'' then (WHB_ZERO, None)
      else if s = ''N'' then (WHB_N, None)
      else if s = ''N-1'' then (WHB_N_MINUS_ONE, None)
      else (- 1, Some (errorString ''invalid White Handicap Bonus'')))"

definition writeKoRule :: "go_int \<Rightarrow> string" where
  "writeKoRule koRule =
     (if koRule = KO_SIMPLE then ''SIMPLE''
      else if koRule = KO_POSITIONAL then ''POSITIONAL''
      else if koRule = KO_SITUATIONAL then ''SITUATIONAL''
      else if koRule = KO_SPIGHT then ''SPIGHT''
      else ''UNKNOWN'')"

definition writeScoringRule :: "go_int \<Rightarrow> string" where
  "writeScoringRule scoringRule =
     (if scoringRule = SCORE_AREA then ''AREA''
      else if scoringRule = SCORE_TERRITORY then ''TERRITORY''
      else ''UNKNOWN'')"

definition writeTaxRule :: "go_int \<Rightarrow> string" where
  "writeTaxRule taxRule =
     (if taxRule = TAX_NONE then ''NONE''
      else if taxRule = TAX_SEKI then ''SEKI''
      else if taxRule = TAX_ALL then ''ALL''
      else ''UNKNOWN'')"

definition writeWhiteHandicapBonus :: "go_int \<Rightarrow> string" where
  "writeWhiteHandicapBonus whiteHandicapBonus =
     (if whiteHandicapBonus = WHB_ZERO then ''ZERO''
      else if whiteHandicapBonus = WHB_N then ''N''
      else if whiteHandicapBonus = WHB_N_MINUS_ONE then ''N-1''
      else ''UNKNOWN'')"

section \<open>The update interface\<close>

text \<open>The message of \<open>stringToBool\<close>'s error: \<open>input should be 'true' or 'false'\<close>.\<close>

definition bool_error_text :: string where
  "bool_error_text =
     ''input should be '' @ [CHR 0x27] @ ''true'' @ [CHR 0x27] @ '' or '' @
     [CHR 0x27] @ ''false'' @ [CHR 0x27]"

definition stringToBool :: "string \<Rightarrow> bool \<times> error option" where
  "stringToBool s =
     (if s = ''true'' \<or> s = ''True'' then (True, None)
      else if s = ''false'' \<or> s = ''False'' then (False, None)
      else (False, Some (errorString bool_error_text)))"

text \<open>
  \<open>UpdateRules\<close> returns \<open>(*Rules, error)\<close> and writes through the receiver, so the
  model returns the heap after the call, the returned pointer and the error; \<open>Inl\<close>
  is a panic. A Go \<open>switch\<close> does not fall through: the empty \<open>case "score":\<close>
  leaves the switch and reaches the final \<open>return r, nil\<close>.
\<close>

definition return_receiver ::
  "go_panic + heap \<Rightarrow> ptr \<Rightarrow> go_panic + (heap \<times> ptr \<times> error option)" where
  "return_receiver written r =
     (case written of Inl p \<Rightarrow> Inl p | Inr h' \<Rightarrow> Inr (h', r, None))"

definition UpdateRules ::
  "heap \<Rightarrow> ptr \<Rightarrow> string \<Rightarrow> string \<Rightarrow> go_panic + (heap \<times> ptr \<times> error option)" where
  "UpdateRules h r k v =
     (if k = ''ko'' then
        (case parseKoRule v of
           (newVal, Some err) \<Rightarrow> Inr (h, None, Some err)
         | (newVal, None) \<Rightarrow> return_receiver (update h r (\<lambda>x. x\<lparr>KoRule := newVal\<rparr>)) r)
      else if k = ''score'' then Inr (h, r, None)
      else if k = ''scoring'' then
        (case parseScoringRule v of
           (newVal, Some err) \<Rightarrow> Inr (h, None, Some err)
         | (newVal, None) \<Rightarrow> return_receiver (update h r (\<lambda>x. x\<lparr>ScoringRule := newVal\<rparr>)) r)
      else if k = ''tax'' then
        (case parseTaxRule v of
           (newVal, Some err) \<Rightarrow> Inr (h, None, Some err)
         | (newVal, None) \<Rightarrow> return_receiver (update h r (\<lambda>x. x\<lparr>TaxRule := newVal\<rparr>)) r)
      else if k = ''suicide'' then
        (case stringToBool v of
           (newVal, Some err) \<Rightarrow> Inr (h, None, Some err)
         | (newVal, None) \<Rightarrow>
             return_receiver (update h r (\<lambda>x. x\<lparr>MultiStoneSuicide := newVal\<rparr>)) r)
      else if k = ''hasButton'' then
        (case stringToBool v of
           (newVal, Some err) \<Rightarrow> Inr (h, None, Some err)
         | (newVal, None) \<Rightarrow> return_receiver (update h r (\<lambda>x. x\<lparr>HasButton := newVal\<rparr>)) r)
      else if k = ''whiteHandicapBonus'' then
        (case parseWhiteHandicapBonus v of
           (newVal, Some err) \<Rightarrow> Inr (h, None, Some err)
         | (newVal, None) \<Rightarrow>
             return_receiver (update h r (\<lambda>x. x\<lparr>WhiteHandicapBonus := newVal\<rparr>)) r)
      else if k = ''friendlyPassOk'' then
        (case stringToBool v of
           (newVal, Some err) \<Rightarrow> Inr (h, None, Some err)
         | (newVal, None) \<Rightarrow>
             return_receiver (update h r (\<lambda>x. x\<lparr>FriendlyPassOk := newVal\<rparr>)) r)
      else Inr (h, None, Some (errorString (k @ '' is not a valid rule key''))))"

section \<open>Derived properties of a ruleset\<close>

definition GameResultWillBeInteger ::
  "(float32 \<Rightarrow> go_int) \<Rightarrow> heap \<Rightarrow> ptr \<Rightarrow> go_panic + bool" where
  "GameResultWillBeInteger oor h r =
     (case load h r of
        Inl p \<Rightarrow> Inl p
      | Inr x \<Rightarrow>
          (let komiIsInteger = f32_eq (int_to_f32 (f32_to_int oor (Komi x))) (Komi x)
           in Inr (komiIsInteger \<noteq> HasButton x)))"

definition komiIsIntOrHalfInt :: "(float32 \<Rightarrow> go_int) \<Rightarrow> float32 \<Rightarrow> bool" where
  "komiIsIntOrHalfInt oor komi =
     (if math_IsInf komi 0 then False
      else f32_eq (f32_mul2 komi) (int_to_f32 (f32_to_int oor komi * 2)))"

section \<open>Preset rulesets\<close>

text \<open>The komi constants of the presets: 7.5, 7.0 and 6.5 as \<open>float32\<close>.\<close>

definition komi_7_5 :: float32 where "komi_7_5 = Float32 False 129 0x700000"
definition komi_7_0 :: float32 where "komi_7_0 = Float32 False 129 0x600000"
definition komi_6_5 :: float32 where "komi_6_5 = Float32 False 129 0x500000"

definition GetTrompTaylorish :: "heap \<Rightarrow> ptr \<Rightarrow> heap \<times> ptr" where
  "GetTrompTaylorish h r =
     alloc h \<lparr>KoRule = KO_POSITIONAL, ScoringRule = SCORE_AREA, TaxRule = TAX_NONE,
              WhiteHandicapBonus = WHB_ZERO, MultiStoneSuicide = False, HasButton = False,
              FriendlyPassOk = False, Komi = komi_7_5\<rparr>"

text \<open>
  The string functions of the normalisation. \<open>strings.ReplaceAll\<close> is called with a
  one-byte \<open>old\<close>: every occurrence of that byte is replaced. \<open>strings.TrimSpace\<close>
  and \<open>strings.ToLower\<close> are modelled exactly on ASCII strings (the white space is
  tab, line feed, vertical tab, form feed, carriage return and space); on a string with
  a byte beyond ASCII they follow Unicode's tables, which the parameters \<open>uTrim\<close> and
  \<open>uLower\<close> stand for.
\<close>

definition is_ascii :: "char \<Rightarrow> bool" where
  "is_ascii c = ((of_char c :: nat) < 128)"

definition asciiSpace :: "char \<Rightarrow> bool" where
  "asciiSpace c =
     (c = CHR 0x09 \<or> c = CHR 0x0A \<or> c = CHR 0x0B \<or> c = CHR 0x0C \<or> c = CHR 0x0D \<or> c = CHR 0x20)"

definition TrimSpace :: "(string \<Rightarrow> string) \<Rightarrow> string \<Rightarrow> string" where
  "TrimSpace uTrim s =
     (if list_all is_ascii s then rev (dropWhile asciiSpace (rev (dropWhile asciiSpace s)))
      else uTrim s)"

definition ReplaceAll :: "string \<Rightarrow> char \<Rightarrow> string \<Rightarrow> string" where
  "ReplaceAll s old new = concat (map (\<lambda>c. if c = old then new else [c]) s)"

definition asciiLower :: "char \<Rightarrow> char" where
  "asciiLower c =
     (if (65 :: nat) \<le> of_char c \<and> of_char c \<le> (90 :: nat)
      then char_of (of_char c + (32 :: nat)) else c)"

definition ToLower :: "(string \<Rightarrow> string) \<Rightarrow> string \<Rightarrow> string" where
  "ToLower uLower s = (if list_all is_ascii s then map asciiLower s else uLower s)"

definition normalise_name :: "(string \<Rightarrow> string) \<Rightarrow> (string \<Rightarrow> string) \<Rightarrow> string \<Rightarrow> string" where
  "normalise_name uTrim uLower s =
     ToLower uLower
       (ReplaceAll (ReplaceAll (ReplaceAll (TrimSpace uTrim s) (CHR ''-'') []) (CHR ''_'') [])
          (CHR '' '') [])"

definition parseRulesHelper ::
  "(string \<Rightarrow> string) \<Rightarrow> (string \<Rightarrow> string) \<Rightarrow> heap \<Rightarrow> ptr \<Rightarrow> string \<Rightarrow> heap \<times> ptr" where
  "parseRulesHelper uTrim uLower h r s0 =
     (let s = normalise_name uTrim uLower s0 in
      if s = ''japanese'' \<or> s = ''korean'' then
        alloc h \<lparr>KoRule = KO_SIMPLE, ScoringRule = SCORE_TERRITORY, TaxRule = TAX_SEKI,
                 WhiteHandicapBonus = WHB_ZERO, MultiStoneSuicide = False, HasButton = False,
                 FriendlyPassOk = False, Komi = komi_6_5\<rparr>
      else if s = ''chinese'' then
        alloc h \<lparr>KoRule = KO_SIMPLE, ScoringRule = SCORE_AREA, TaxRule = TAX_NONE,
                 WhiteHandicapBonus = WHB_N, MultiStoneSuicide = False, HasButton = False,
                 FriendlyPassOk = False, Komi = komi_7_5\<rparr>
      else if s = ''chineseogs'' \<or> s = ''chinesekgs'' then
        alloc h \<lparr>KoRule = KO_POSITIONAL, ScoringRule = SCORE_AREA, TaxRule = TAX_NONE,
                 WhiteHandicapBonus = WHB_N, MultiStoneSuicide = False, HasButton = False,
                 FriendlyPassOk = True, Komi = komi_7_5\<rparr>
      else if s = ''ancientarea'' \<or> s = ''stonescoring'' then
        alloc h \<lparr>KoRule = KO_SIMPLE, ScoringRule = SCORE_AREA, TaxRule = TAX_ALL,
                 WhiteHandicapBonus = WHB_ZERO, MultiStoneSuicide = False, HasButton = False,
                 FriendlyPassOk = True, Komi = komi_7_5\<rparr>
      else if s = ''ancientterritory'' then
        alloc h \<lparr>KoRule = KO_SIMPLE, ScoringRule = SCORE_TERRITORY, TaxRule = TAX_ALL,
                 WhiteHandicapBonus = WHB_ZERO, MultiStoneSuicide = False, HasButton = False,
                 FriendlyPassOk = False, Komi = komi_6_5\<rparr>
      else if s = ''agabutton'' then
        alloc h \<lparr>KoRule = KO_SITUATIONAL, ScoringRule = SCORE_AREA, TaxRule = TAX_NONE,
                 WhiteHandicapBonus = WHB_N_MINUS_ONE, MultiStoneSuicide = False,
                 HasButton = True, FriendlyPassOk = True, Komi = komi_7_0\<rparr>
      else if s = ''aga'' \<or> s = ''bga'' \<or> s = ''french'' then
        alloc h \<lparr>KoRule = KO_SITUATIONAL, ScoringRule = SCORE_AREA, TaxRule = TAX_NONE,
                 WhiteHandicapBonus = WHB_N_MINUS_ONE, MultiStoneSuicide = False,
                 HasButton = False, FriendlyPassOk = True, Komi = komi_7_5\<rparr>
      else if s = ''newzealand'' \<or> s = ''nz'' then
        alloc h \<lparr>KoRule = KO_SITUATIONAL, ScoringRule = SCORE_AREA, TaxRule = TAX_NONE,
                 WhiteHandicapBonus = WHB_ZERO, MultiStoneSuicide = True, HasButton = False,
                 FriendlyPassOk = True, Komi = komi_7_5\<rparr>
      else if s = ''goe'' \<or> s = ''ing'' then
        alloc h \<lparr>KoRule = KO_POSITIONAL, ScoringRule = SCORE_AREA, TaxRule = TAX_NONE,
                 WhiteHandicapBonus = WHB_ZERO, MultiStoneSuicide = True, HasButton = False,
                 FriendlyPassOk = True, Komi = komi_7_5\<rparr>
      else GetTrompTaylorish h r)"

definition ParseRules ::
  "(string \<Rightarrow> string) \<Rightarrow> (string \<Rightarrow> string) \<Rightarrow> heap \<Rightarrow> ptr \<Rightarrow> string \<Rightarrow> heap \<times> ptr" where
  "ParseRules uTrim uLower h r s = parseRulesHelper uTrim uLower h r s"

text \<open>
  \<open>rules.Komi = komi\<close> writes through the pointer \<open>parseRulesHelper\<close> returned, which
  is never \<open>nil\<close>; the write is modelled by \<open>update\<close> all the same.
\<close>

definition ParseRulesWithoutKomi ::
  "(string \<Rightarrow> string) \<Rightarrow> (string \<Rightarrow> string) \<Rightarrow> heap \<Rightarrow> ptr \<Rightarrow> string \<Rightarrow> float32 \<Rightarrow>
   go_panic + (heap \<times> ptr)" where
  "ParseRulesWithoutKomi uTrim uLower h r s komi =
     (case parseRulesHelper uTrim uLower h r s of
        (h1, rules) \<Rightarrow>
          (case update h1 rules (\<lambda>x. x\<lparr>Komi := komi\<rparr>) of
             Inl p \<Rightarrow> Inl p
           | Inr h2 \<Rightarrow> Inr (h2, rules)))"

section \<open>Display strings\<close>

text \<open>
  \<open>strconv.FormatFloat(float64(komi), 'f', -1, 32)\<close>: the format \<open>'f'\<close> writes no
  exponent, the precision \<open>-1\<close> asks for the fewest digits that still read back as the
  same \<open>float32\<close>. A decimal reads back as \<open>x\<close> when it lies between the midpoints to
  the two neighbours of \<open>x\<close> (the midpoints included when the significand of \<open>x\<close> is
  even). Quantities are counted in quarters of the unit in the last place,
  \<open>q_num / q_den\<close>. A candidate of \<open>n\<close> digits is the integer \<open>c\<close> that stands
  for \<open>c / 10 ^ j\<close> (for \<open>c * 10 ^ - j\<close> when \<open>j\<close> is negative), where \<open>j\<close> is
  \<open>n\<close> minus the decimal exponent of \<open>x\<close>; the two candidates around \<open>x\<close> are
  tried for \<open>n\<close> from 1 to 8, and of two that read back the nearer one is written
  (the even one on a tie). With nine digits the nearest candidate always reads back.
\<close>

fun digits10 :: "nat \<Rightarrow> string" where
  "digits10 n =
     (if n < 10 then [''0123456789'' ! n]
      else digits10 (n div 10) @ [''0123456789'' ! (n mod 10)])"

definition q_num :: "float32 \<Rightarrow> nat" where
  "q_num x = (if 2 \<le> f_bexp x then 2 ^ nat (f_bexp x - 2) else 1)"

definition q_den :: "float32 \<Rightarrow> nat" where
  "q_den x = (if 2 \<le> f_bexp x then 1 else 2 ^ nat (2 - f_bexp x))"

definition q_value :: "float32 \<Rightarrow> nat" where
  "q_value x = 4 * f_mant x"

definition q_upper :: "float32 \<Rightarrow> nat" where
  "q_upper x = 4 * f_mant x + 2"

definition q_lower :: "float32 \<Rightarrow> nat" where
  "q_lower x =
     (if f_mant x = 2 ^ 23 \<and> f_exp x \<noteq> 1 then 4 * f_mant x - 1 else 4 * f_mant x - 2)"

definition below_pow10 :: "float32 \<Rightarrow> int \<Rightarrow> bool" where
  "below_pow10 x k =
     (if 0 \<le> k then q_value x * q_num x < 10 ^ nat k * q_den x
      else q_value x * q_num x * 10 ^ nat (- k) < q_den x)"

fun find_dexp :: "nat \<Rightarrow> int \<Rightarrow> float32 \<Rightarrow> int" where
  "find_dexp 0 k x = k"
| "find_dexp (Suc n) k x = (if below_pow10 x k then k else find_dexp n (k + 1) x)"

definition dec_exp :: "float32 \<Rightarrow> int" where
  "dec_exp x = find_dexp 90 (- 45) x"

definition scale_up :: "int \<Rightarrow> nat" where
  "scale_up j = (if 0 \<le> j then 10 ^ nat j else 1)"

definition scale_down :: "int \<Rightarrow> nat" where
  "scale_down j = (if 0 \<le> j then 1 else 10 ^ nat (- j))"

definition round_trips :: "float32 \<Rightarrow> int \<Rightarrow> nat \<Rightarrow> bool" where
  "round_trips x j c =
     (let d = c * scale_down j * q_den x;
          lo = q_lower x * q_num x * scale_up j;
          hi = q_upper x * q_num x * scale_up j
      in if even (f_mant x) then lo \<le> d \<and> d \<le> hi else lo < d \<and> d < hi)"

definition distance :: "float32 \<Rightarrow> int \<Rightarrow> nat \<Rightarrow> int" where
  "distance x j c =
     \<bar>int (c * scale_down j * q_den x) - int (q_value x * q_num x * scale_up j)\<bar>"

definition floor_digits :: "float32 \<Rightarrow> int \<Rightarrow> nat" where
  "floor_digits x j = (q_value x * q_num x * scale_up j) div (q_den x * scale_down j)"

definition nearest_digits :: "float32 \<Rightarrow> int \<Rightarrow> nat" where
  "nearest_digits x j =
     (let lo = floor_digits x j; hi = lo + 1
      in if distance x j lo < distance x j hi then lo
         else if distance x j hi < distance x j lo then hi
         else if even lo then lo else hi)"

definition pick_digits :: "float32 \<Rightarrow> int \<Rightarrow> nat option" where
  "pick_digits x j =
     (let lo = floor_digits x j; hi = lo + 1
      in if round_trips x j lo \<and> round_trips x j hi then Some (nearest_digits x j)
         else if round_trips x j lo then Some lo
         else if round_trips x j hi then Some hi
         else None)"

fun shortest_digits :: "nat \<Rightarrow> nat \<Rightarrow> float32 \<Rightarrow> nat \<times> nat" where
  "shortest_digits 0 n x = (nearest_digits x (int n - dec_exp x), n)"
| "shortest_digits (Suc fuel) n x =
     (case pick_digits x (int n - dec_exp x) of
        Some c \<Rightarrow> (c, n)
      | None \<Rightarrow> shortest_digits fuel (Suc n) x)"

definition fmt_decimal :: "nat \<Rightarrow> int \<Rightarrow> string" where
  "fmt_decimal c j =
     (if j \<le> 0 then digits10 (c * 10 ^ nat (- j))
      else
        (let fs = digits10 (c mod 10 ^ nat j);
             padded = replicate (nat j - length fs) (CHR ''0'') @ fs;
             trimmed = rev (dropWhile (\<lambda>d. d = CHR ''0'') (rev padded))
         in digits10 (c div 10 ^ nat j) @ (if trimmed = [] then [] else CHR ''.'' # trimmed)))"

definition FormatFloat32 :: "float32 \<Rightarrow> string" where
  "FormatFloat32 x =
     (if is_nan x then ''NaN''
      else if is_inf x then (if f_sign x then ''-Inf'' else ''+Inf'')
      else (if f_sign x then ''-'' else []) @
           (if f_mant x = 0 then ''0''
            else (case shortest_digits 8 1 x of (c, n) \<Rightarrow> fmt_decimal c (int n - dec_exp x))))"

text \<open>\<open>ToStringNoKomi\<close> and \<open>ToString\<close>: \<open>strings.Builder\<close> appends in order.\<close>

definition ToStringNoKomi :: "heap \<Rightarrow> ptr \<Rightarrow> go_panic + string" where
  "ToStringNoKomi h r =
     (case load h r of
        Inl p \<Rightarrow> Inl p
      | Inr x \<Rightarrow>
          Inr (''Ko Rule: '' @ writeKoRule (KoRule x) @
               '', Scoring Rule: '' @ writeScoringRule (ScoringRule x) @
               '', Tax Rule: '' @ writeTaxRule (TaxRule x) @
               '', White Handicap Bonus: '' @ writeWhiteHandicapBonus (WhiteHandicapBonus x) @
               (if MultiStoneSuicide x then '', Suicide Allowed'' else []) @
               (if HasButton x then '', Has Button'' else []) @
               (if WhiteHandicapBonus x \<noteq> WHB_ZERO
                then '', White Handicap Bonus: '' @
                     writeWhiteHandicapBonus (WhiteHandicapBonus x)
                else []) @
               (if FriendlyPassOk x then '', Friendly Pass OK'' else [])))"

definition ToString :: "heap \<Rightarrow> ptr \<Rightarrow> go_panic + string" where
  "ToString h r =
     (case ToStringNoKomi h r of
        Inl p \<Rightarrow> Inl p
      | Inr s \<Rightarrow>
          (case load h r of
             Inl p \<Rightarrow> Inl p
           | Inr x \<Rightarrow> Inr (s @ '', Komi: '' @ FormatFloat32 (Komi x))))"

section \<open>Reference values of the specification\<close>

text \<open>
  Two rows of the specification's preset table, as records: the Tromp-Taylor-ish default
  (Positional, Area, None, no suicide, no button, Zero, no friendly pass, komi 7.5) and
  the Chinese preset (Simple, Area, None, no suicide, no button, N, no friendly pass,
  komi 7.5). The code's results are compared with them.
\<close>

definition spec_TrompTaylorish :: Rules where
  "spec_TrompTaylorish =
     \<lparr>KoRule = KO_POSITIONAL, ScoringRule = SCORE_AREA, TaxRule = TAX_NONE,
      WhiteHandicapBonus = WHB_ZERO, MultiStoneSuicide = False, HasButton = False,
      FriendlyPassOk = False, Komi = komi_7_5\<rparr>"

definition spec_Chinese :: Rules where
  "spec_Chinese =
     \<lparr>KoRule = KO_SIMPLE, ScoringRule = SCORE_AREA, TaxRule = TAX_NONE,
      WhiteHandicapBonus = WHB_N, MultiStoneSuicide = False, HasButton = False,
      FriendlyPassOk = False, Komi = komi_7_5\<rparr>"

text \<open>
  Komi values of the examples: 6.0, and \<open>2 ^ 64\<close> as a komi beyond the range of
  \<open>int\<close>.
\<close>

definition komi_6_0 :: float32 where "komi_6_0 = Float32 False 129 0x400000"
definition komi_2_pow_64 :: float32 where "komi_2_pow_64 = Float32 False 191 0"

text \<open>
  The specification's \<open>truncate\<close>: the integer part of a number, rounding towards zero.
\<close>

definition spec_truncate :: "rat \<Rightarrow> int" where
  "spec_truncate q = (if 0 \<le> q then \<lfloor>q\<rfloor> else \<lceil>q\<rceil>)"

section \<open>Properties\<close>

lemmas enum_defs =
  KO_SIMPLE_def KO_POSITIONAL_def KO_SITUATIONAL_def KO_SPIGHT_def
  SCORE_AREA_def SCORE_TERRITORY_def
  TAX_NONE_def TAX_SEKI_def TAX_ALL_def
  WHB_ZERO_def WHB_N_def WHB_N_MINUS_ONE_def

text \<open>
  C2. For every heap, every receiver \<open>r\<close> and every value string \<open>v\<close> (a valid token
  or not), \<open>UpdateRules\<close> with the key \<open>"score"\<close> returns the receiver and a
  \<open>nil\<close> error, and the heap after the call is the heap before it: no field of any
  \<open>Rules\<close> object is written.
\<close>

theorem score_key_is_noop:
  "UpdateRules h r ''score'' v = Inr (h, r, None)"
  by (simp add: UpdateRules_def)

text \<open>
  C3. For every ruleset object \<open>h ! a\<close> of the heap (the receiver is the pointer
  \<open>Some a\<close>): the update \<open>suicide\<close> := \<open>true\<close> succeeds, returns the receiver and
  writes \<open>MultiStoneSuicide = True\<close> into that object and nothing else; the update
  \<open>suicide\<close> := \<open>maybe\<close> fails with the error of \<open>stringToBool\<close> (the
  invalid-boolean error, \<open>input should be 'true' or 'false'\<close>) and leaves the heap as it
  was; the update \<open>bogusKey\<close> := \<open>x\<close> fails with the unknown-key error, whose text
  starts with the offending key, and leaves the heap as it was.
\<close>

theorem suicide_update_and_failures:
  "a < length h \<Longrightarrow>
   UpdateRules h (Some a) ''suicide'' ''true'' =
     Inr (h[a := (h ! a)\<lparr>MultiStoneSuicide := True\<rparr>], Some a, None) \<and>
   UpdateRules h (Some a) ''suicide'' ''maybe'' = Inr (h, None, snd (stringToBool ''maybe'')) \<and>
   snd (stringToBool ''maybe'') = Some (errorString bool_error_text) \<and>
   UpdateRules h (Some a) ''bogusKey'' ''x'' =
     Inr (h, None, Some (errorString (''bogusKey'' @ '' is not a valid rule key'')))"
  by (simp add: UpdateRules_def stringToBool_def return_receiver_def update_def)

theorem suicide_update_and_failures_witness:
  "UpdateRules (fst (GetTrompTaylorish [] None)) (Some 0) ''suicide'' ''true'' =
     Inr ([\<lparr>KoRule = KO_POSITIONAL, ScoringRule = SCORE_AREA, TaxRule = TAX_NONE,
            WhiteHandicapBonus = WHB_ZERO, MultiStoneSuicide = True, HasButton = False,
            FriendlyPassOk = False, Komi = komi_7_5\<rparr>], Some 0, None) \<and>
   UpdateRules (fst (GetTrompTaylorish [] None)) (Some 0) ''suicide'' ''maybe'' =
     Inr (fst (GetTrompTaylorish [] None), None, Some (errorString bool_error_text)) \<and>
   UpdateRules (fst (GetTrompTaylorish [] None)) (Some 0) ''bogusKey'' ''x'' =
     Inr (fst (GetTrompTaylorish [] None), None,
          Some (errorString ''bogusKey is not a valid rule key''))"
  using suicide_update_and_failures [of 0 "fst (GetTrompTaylorish [] None)"]
  by (simp add: GetTrompTaylorish_def alloc_def)

text \<open>
  C6. For each of the four enumerations and each of its variants \<open>v\<close>, parsing the
  canonical string of \<open>v\<close> succeeds and gives \<open>v\<close> back.
\<close>

theorem enum_round_trip:
  "(\<forall>v \<in> {KO_SIMPLE, KO_POSITIONAL, KO_SITUATIONAL, KO_SPIGHT}.
      parseKoRule (writeKoRule v) = (v, None)) \<and>
   (\<forall>v \<in> {SCORE_AREA, SCORE_TERRITORY}.
      parseScoringRule (writeScoringRule v) = (v, None)) \<and>
   (\<forall>v \<in> {TAX_NONE, TAX_SEKI, TAX_ALL}.
      parseTaxRule (writeTaxRule v) = (v, None)) \<and>
   (\<forall>v \<in> {WHB_ZERO, WHB_N, WHB_N_MINUS_ONE}.
      parseWhiteHandicapBonus (writeWhiteHandicapBonus v) = (v, None))"
  by (simp add: enum_defs parseKoRule_def writeKoRule_def parseScoringRule_def
      writeScoringRule_def parseTaxRule_def writeTaxRule_def parseWhiteHandicapBonus_def
      writeWhiteHandicapBonus_def)

theorem enum_round_trip_witness:
  "parseKoRule (writeKoRule KO_SPIGHT) = (KO_SPIGHT, None) \<and>
   parseScoringRule (writeScoringRule SCORE_TERRITORY) = (SCORE_TERRITORY, None) \<and>
   parseTaxRule (writeTaxRule TAX_ALL) = (TAX_ALL, None) \<and>
   parseWhiteHandicapBonus (writeWhiteHandicapBonus WHB_N_MINUS_ONE) = (WHB_N_MINUS_ONE, None)"
  using enum_round_trip by simp

text \<open>
  C7, as the code has it. For every text that is not a canonical token of the
  enumeration (a token in the wrong case among them) the parser returns \<open>-1\<close> and an
  error whose text is \<open>invalid\<close> followed by the rule category: \<open>Ko Rule\<close>,
  \<open>Scoring Rule\<close>, \<open>Tax Rule\<close> or \<open>White Handicap Bonus\<close>. The error is the same
  for every rejected text of a category; the rejected text is not part of it.
\<close>

theorem invalid_token_error:
  "(s \<notin> {''SIMPLE'', ''POSITIONAL'', ''SITUATIONAL'', ''SPIGHT''} \<longrightarrow>
      parseKoRule s = (- 1, Some (errorString ''invalid Ko Rule''))) \<and>
   (s \<notin> {''AREA'', ''TERRITORY''} \<longrightarrow>
      parseScoringRule s = (- 1, Some (errorString ''invalid Scoring Rule''))) \<and>
   (s \<notin> {''NONE'', ''SEKI'', ''ALL''} \<longrightarrow>
      parseTaxRule s = (- 1, Some (errorString ''invalid Tax Rule''))) \<and>
   (s \<notin> {''ZERO'', ''N'', ''N-1''} \<longrightarrow>
      parseWhiteHandicapBonus s = (- 1, Some (errorString ''invalid White Handicap Bonus'')))"
  by (simp add: parseKoRule_def parseScoringRule_def parseTaxRule_def
      parseWhiteHandicapBonus_def)

theorem invalid_token_error_witness:
  "parseKoRule ''Simple'' = (- 1, Some (errorString ''invalid Ko Rule'')) \<and>
   parseScoringRule ''Simple'' = (- 1, Some (errorString ''invalid Scoring Rule'')) \<and>
   parseTaxRule ''Simple'' = (- 1, Some (errorString ''invalid Tax Rule'')) \<and>
   parseWhiteHandicapBonus ''Simple'' =
     (- 1, Some (errorString ''invalid White Handicap Bonus''))"
  using invalid_token_error [of "''Simple''"] by simp

text \<open>
  C7 as stated fails: the error for the rejected text \<open>simple\<close> (the token
  \<open>SIMPLE\<close> in the wrong case) is \<open>invalid Ko Rule\<close>. The rejected text does not
  occur in it, and the same error is returned for the different rejected text
  \<open>sImple\<close>, so the error does not carry the rejected text.
\<close>

theorem rejected_text_not_in_error:
  "parseKoRule ''simple'' = (- 1, Some (errorString ''invalid Ko Rule'')) \<and>
   \<not> sublist ''simple'' ''invalid Ko Rule'' \<and>
   snd (parseKoRule ''simple'') = snd (parseKoRule ''sImple'')"
  by (simp add: parseKoRule_def) code_simp

text \<open>
  C9. Whenever \<open>UpdateRules\<close> returns an error, the pointer it returns is \<open>nil\<close>,
  and reading a field through that pointer panics; whenever it returns no error, the
  pointer it returns is the receiver. It returns an error for every key outside the
  eight recognised ones, and for a recognised key whose value its parser rejects.
\<close>

theorem update_failure_returns_nil:
  "(UpdateRules h r k v = Inr (h', p, Some e) \<longrightarrow> p = None \<and> load h' p = Inl NilDereference) \<and>
   (UpdateRules h r k v = Inr (h', p, None) \<longrightarrow> p = r) \<and>
   (k \<notin> {''ko'', ''score'', ''scoring'', ''tax'', ''suicide'', ''hasButton'',
           ''whiteHandicapBonus'', ''friendlyPassOk''} \<longrightarrow>
      UpdateRules h r k v = Inr (h, None, Some (errorString (k @ '' is not a valid rule key'')))) \<and>
   (parseKoRule v = (n, Some e) \<longrightarrow> UpdateRules h r ''ko'' v = Inr (h, None, Some e)) \<and>
   (parseScoringRule v = (n, Some e) \<longrightarrow> UpdateRules h r ''scoring'' v = Inr (h, None, Some e)) \<and>
   (parseTaxRule v = (n, Some e) \<longrightarrow> UpdateRules h r ''tax'' v = Inr (h, None, Some e)) \<and>
   (parseWhiteHandicapBonus v = (n, Some e) \<longrightarrow>
      UpdateRules h r ''whiteHandicapBonus'' v = Inr (h, None, Some e)) \<and>
   (stringToBool v = (b, Some e) \<longrightarrow>
      UpdateRules h r ''suicide'' v = Inr (h, None, Some e) \<and>
      UpdateRules h r ''hasButton'' v = Inr (h, None, Some e) \<and>
      UpdateRules h r ''friendlyPassOk'' v = Inr (h, None, Some e))"
proof -
  have fail: "p = None \<and> load h' p = Inl NilDereference"
    if "UpdateRules h r k v = Inr (h', p, Some e)"
    using that
    by (auto simp: UpdateRules_def return_receiver_def load_def
        split: if_splits prod.splits option.splits sum.splits)
  have succeed: "p = r" if "UpdateRules h r k v = Inr (h', p, None)"
    using that
    by (auto simp: UpdateRules_def return_receiver_def
        split: if_splits prod.splits option.splits sum.splits)
  have unknown:
    "UpdateRules h r k v = Inr (h, None, Some (errorString (k @ '' is not a valid rule key'')))"
    if "k \<notin> {''ko'', ''score'', ''scoring'', ''tax'', ''suicide'', ''hasButton'',
              ''whiteHandicapBonus'', ''friendlyPassOk''}"
    using that by (simp add: UpdateRules_def)
  show ?thesis
    using fail succeed unknown by (simp add: UpdateRules_def)
qed

theorem update_failure_returns_nil_witness:
  "UpdateRules (fst (GetTrompTaylorish [] None)) (Some 0) ''ko'' ''simple'' =
     Inr (fst (GetTrompTaylorish [] None), None, Some (errorString ''invalid Ko Rule'')) \<and>
   UpdateRules (fst (GetTrompTaylorish [] None)) (Some 0) ''komi'' ''7.5'' =
     Inr (fst (GetTrompTaylorish [] None), None,
          Some (errorString ''komi is not a valid rule key'')) \<and>
   load (fst (GetTrompTaylorish [] None)) None = Inl NilDereference \<and>
   UpdateRules (fst (GetTrompTaylorish [] None)) (Some 0) ''ko'' ''SIMPLE'' =
     Inr ([\<lparr>KoRule = KO_SIMPLE, ScoringRule = SCORE_AREA, TaxRule = TAX_NONE,
            WhiteHandicapBonus = WHB_ZERO, MultiStoneSuicide = False, HasButton = False,
            FriendlyPassOk = False, Komi = komi_7_5\<rparr>], Some 0, None)"
  using
    update_failure_returns_nil [of "fst (GetTrompTaylorish [] None)" "Some 0" "''ko''"
      "''simple''" "fst (GetTrompTaylorish [] None)" None "errorString ''invalid Ko Rule''"
      "- 1" False]
    update_failure_returns_nil [of "fst (GetTrompTaylorish [] None)" "Some 0" "''komi''"
      "''7.5''"]
  by (simp add: UpdateRules_def parseKoRule_def return_receiver_def update_def load_def
      GetTrompTaylorish_def alloc_def)

subsection \<open>Evaluating the display of komi 7.5\<close>

lemma find_dexp_numeral:
  "find_dexp (numeral n) k x =
     (if below_pow10 x k then k else find_dexp (pred_numeral n) (k + 1) x)"
  by (simp add: numeral_eq_Suc)

lemma shortest_digits_numeral:
  "shortest_digits (numeral f) n x =
     (case pick_digits x (int n - dec_exp x) of
        Some c \<Rightarrow> (c, n)
      | None \<Rightarrow> shortest_digits (pred_numeral f) (Suc n) x)"
  by (simp add: numeral_eq_Suc)

lemma komi_7_5_fields: "f_mant komi_7_5 = 15728640" "f_bexp komi_7_5 = - 21"
  by (simp_all add: komi_7_5_def f_mant_def f_bexp_def)

lemma komi_7_5_quarters:
  "q_num komi_7_5 = 1" "q_den komi_7_5 = 8388608" "q_value komi_7_5 = 62914560"
  "q_lower komi_7_5 = 62914558" "q_upper komi_7_5 = 62914562"
  by (simp_all add: q_num_def q_den_def q_value_def q_lower_def q_upper_def komi_7_5_fields)

lemma komi_7_5_dec_exp: "dec_exp komi_7_5 = 1"
  by (simp add: dec_exp_def find_dexp_numeral below_pow10_def komi_7_5_quarters)

lemma komi_7_5_digits: "shortest_digits 8 (Suc 0) komi_7_5 = (75, 2)"
  by (simp add: shortest_digits_numeral komi_7_5_dec_exp pick_digits_def round_trips_def
      floor_digits_def nearest_digits_def distance_def scale_up_def scale_down_def
      komi_7_5_quarters komi_7_5_fields Let_def)

lemma komi_7_5_class: "\<not> is_nan komi_7_5" "\<not> is_inf komi_7_5" "\<not> f_sign komi_7_5"
  by (simp_all add: is_nan_def is_inf_def komi_7_5_def)

lemma FormatFloat32_7_5: "FormatFloat32 komi_7_5 = ''7.5''"
  by (simp add: FormatFloat32_def komi_7_5_digits komi_7_5_dec_exp komi_7_5_fields
      komi_7_5_class fmt_decimal_def Let_def)

lemma load_fresh: "load (h @ [x]) (Some (length h)) = Inr x"
  by (simp add: load_def)

lemma GetTrompTaylorish_eq:
  "GetTrompTaylorish h r = (h @ [spec_TrompTaylorish], Some (length h))"
  by (simp add: GetTrompTaylorish_def alloc_def spec_TrompTaylorish_def)

text \<open>
  C4. The display string of the object \<open>GetTrompTaylorish\<close> returns is exactly
  \<open>Ko Rule: POSITIONAL, Scoring Rule: AREA, Tax Rule: NONE, White Handicap Bonus: ZERO, Komi: 7.5\<close>.
  For every ruleset whose white handicap bonus is not \<open>WHB_ZERO\<close> the display string
  is, in this order: the ko, scoring, tax and white-handicap-bonus clauses, the suicide
  and button clauses when the flags are set, the white-handicap-bonus clause a second
  time, the friendly-pass clause when the flag is set, and the komi.
\<close>

theorem display_string:
  "ToString (fst (GetTrompTaylorish h0 r0)) (snd (GetTrompTaylorish h0 r0)) =
     Inr ''Ko Rule: POSITIONAL, Scoring Rule: AREA, Tax Rule: NONE, White Handicap Bonus: ZERO, Komi: 7.5'' \<and>
   (load h r = Inr x \<and> WhiteHandicapBonus x \<noteq> WHB_ZERO \<longrightarrow>
      ToString h r =
        Inr (''Ko Rule: '' @ writeKoRule (KoRule x) @
             '', Scoring Rule: '' @ writeScoringRule (ScoringRule x) @
             '', Tax Rule: '' @ writeTaxRule (TaxRule x) @
             '', White Handicap Bonus: '' @ writeWhiteHandicapBonus (WhiteHandicapBonus x) @
             (if MultiStoneSuicide x then '', Suicide Allowed'' else []) @
             (if HasButton x then '', Has Button'' else []) @
             '', White Handicap Bonus: '' @ writeWhiteHandicapBonus (WhiteHandicapBonus x) @
             (if FriendlyPassOk x then '', Friendly Pass OK'' else []) @
             '', Komi: '' @ FormatFloat32 (Komi x)))"
proof -
  have "ToString (h0 @ [spec_TrompTaylorish]) (Some (length h0)) =
     Inr ''Ko Rule: POSITIONAL, Scoring Rule: AREA, Tax Rule: NONE, White Handicap Bonus: ZERO, Komi: 7.5''"
    by (simp add: ToString_def ToStringNoKomi_def load_fresh spec_TrompTaylorish_def
        writeKoRule_def writeScoringRule_def writeTaxRule_def writeWhiteHandicapBonus_def
        enum_defs FormatFloat32_7_5)
  then show ?thesis
    by (simp add: GetTrompTaylorish_eq ToString_def ToStringNoKomi_def)
qed

theorem display_string_witness:
  "ToString [spec_Chinese] (Some 0) =
     Inr ''Ko Rule: SIMPLE, Scoring Rule: AREA, Tax Rule: NONE, White Handicap Bonus: N, White Handicap Bonus: N, Komi: 7.5''"
  using display_string [of "[]" None "[spec_Chinese]" "Some 0" spec_Chinese]
  by (simp add: load_def spec_Chinese_def writeKoRule_def writeScoringRule_def
      writeTaxRule_def writeWhiteHandicapBonus_def enum_defs FormatFloat32_7_5)

subsection \<open>Preset resolution\<close>

lemmas normalise_defs =
  normalise_name_def TrimSpace_def ToLower_def ReplaceAll_def is_ascii_def asciiSpace_def
  asciiLower_def char_of_def bit_0

lemma parseRulesHelper_fresh:
  "\<exists>x. parseRulesHelper uT uL h r s = (h @ [x], Some (length h))"
  by (simp add: parseRulesHelper_def GetTrompTaylorish_def alloc_def Let_def)

lemma parseRulesHelper_same:
  "parseRulesHelper uT uL h r s =
     (h @ fst (parseRulesHelper uT uL [] None s), Some (length h))"
  by (simp add: parseRulesHelper_def GetTrompTaylorish_def alloc_def Let_def)

lemma parseRulesHelper_chinese:
  "normalise_name uT uL s = ''chinese'' \<Longrightarrow>
   parseRulesHelper uT uL h r s = alloc h spec_Chinese"
  by (simp add: parseRulesHelper_def spec_Chinese_def Let_def)

lemma parseRulesHelper_default:
  "normalise_name uT uL s \<notin>
     {''japanese'', ''korean'', ''chinese'', ''chineseogs'', ''chinesekgs'', ''ancientarea'',
      ''stonescoring'', ''ancientterritory'', ''agabutton'', ''aga'', ''bga'', ''french'',
      ''newzealand'', ''nz'', ''goe'', ''ing''} \<Longrightarrow>
   parseRulesHelper uT uL h r s = alloc h spec_TrompTaylorish"
  by (simp add: parseRulesHelper_def GetTrompTaylorish_def spec_TrompTaylorish_def Let_def)

text \<open>
  C5. \<open>ParseRules\<close> never fails: for every input it allocates one object and returns
  the pointer to it. The inputs \<open>Chinese\<close>, \<open>chinese\<close>, \<open>CHI-NESE\<close> and
  \<open>chi nese\<close> all give the Chinese preset; \<open>not-a-real-ruleset\<close>, the empty string
  and every input whose normalised form is none of the sixteen preset names give the
  Tromp-Taylor-ish default.
\<close>

theorem preset_resolution:
  "ParseRules uT uL h r ''Chinese'' = alloc h spec_Chinese \<and>
   ParseRules uT uL h r ''chinese'' = alloc h spec_Chinese \<and>
   ParseRules uT uL h r ''CHI-NESE'' = alloc h spec_Chinese \<and>
   ParseRules uT uL h r ''chi nese'' = alloc h spec_Chinese \<and>
   ParseRules uT uL h r ''not-a-real-ruleset'' = alloc h spec_TrompTaylorish \<and>
   ParseRules uT uL h r [] = alloc h spec_TrompTaylorish \<and>
   (normalise_name uT uL s \<notin>
      {''japanese'', ''korean'', ''chinese'', ''chineseogs'', ''chinesekgs'', ''ancientarea'',
       ''stonescoring'', ''ancientterritory'', ''agabutton'', ''aga'', ''bga'', ''french'',
       ''newzealand'', ''nz'', ''goe'', ''ing''} \<longrightarrow>
      ParseRules uT uL h r s = alloc h spec_TrompTaylorish) \<and>
   (\<exists>x. ParseRules uT uL h r s = alloc h x \<and>
        load (fst (ParseRules uT uL h r s)) (snd (ParseRules uT uL h r s)) = Inr x)"
proof -
  have n1: "normalise_name uT uL ''Chinese'' = ''chinese''" by (simp add: normalise_defs)
  have n2: "normalise_name uT uL ''chinese'' = ''chinese''" by (simp add: normalise_defs)
  have n3: "normalise_name uT uL ''CHI-NESE'' = ''chinese''" by (simp add: normalise_defs)
  have n4: "normalise_name uT uL ''chi nese'' = ''chinese''" by (simp add: normalise_defs)
  have n5: "normalise_name uT uL ''not-a-real-ruleset'' = ''notarealruleset''"
    by (simp add: normalise_defs)
  have n6: "normalise_name uT uL [] = []" by (simp add: normalise_defs)
  obtain x where x: "parseRulesHelper uT uL h r s = (h @ [x], Some (length h))"
    using parseRulesHelper_fresh by blast
  have total: "\<exists>x. ParseRules uT uL h r s = alloc h x \<and>
        load (fst (ParseRules uT uL h r s)) (snd (ParseRules uT uL h r s)) = Inr x"
    by (rule exI [of _ x]) (simp add: ParseRules_def x alloc_def load_def)
  show ?thesis
    using total
    by (simp add: ParseRules_def parseRulesHelper_chinese n1 n2 n3 n4
        parseRulesHelper_default n5 n6)
qed

theorem preset_resolution_witness:
  "ParseRules id id [] None ''tromp-taylor'' = ([spec_TrompTaylorish], Some 0) \<and>
   ParseRules id id [] None '' Chi_Nese '' = ([spec_Chinese], Some 0)"
proof -
  have "normalise_name id id ''tromp-taylor'' = ''tromptaylor''"
    by (simp add: normalise_defs)
  moreover have "normalise_name id id '' Chi_Nese '' = ''chinese''"
    by (simp add: normalise_defs)
  ultimately show ?thesis
    using preset_resolution [of id id "[]" None "''tromp-taylor''"]
      parseRulesHelper_chinese [of id id "'' Chi_Nese ''" "[]" None]
    by (simp add: alloc_def ParseRules_def)
qed

text \<open>
  C10. \<open>ParseRules\<close> and \<open>ParseRulesWithoutKomi\<close> append one new object to the heap
  and return the pointer to it; the object is the same for any two heaps and receivers
  (it depends on the string, and on the komi, only), and every object of the heap
  before the call, the receiver among them, is unchanged after it.
\<close>

theorem parse_independent_of_receiver:
  "(\<exists>x. ParseRules uT uL h1 r1 s = (h1 @ [x], Some (length h1)) \<and>
        ParseRules uT uL h2 r2 s = (h2 @ [x], Some (length h2))) \<and>
   (\<exists>x. ParseRulesWithoutKomi uT uL h1 r1 s komi = Inr (h1 @ [x], Some (length h1)) \<and>
        ParseRulesWithoutKomi uT uL h2 r2 s komi = Inr (h2 @ [x], Some (length h2)) \<and>
        Komi x = komi) \<and>
   (\<forall>a. a < length h1 \<longrightarrow>
      load (fst (ParseRules uT uL h1 r1 s)) (Some a) = load h1 (Some a) \<and>
      (\<forall>h' p. ParseRulesWithoutKomi uT uL h1 r1 s komi = Inr (h', p) \<longrightarrow>
         load h' (Some a) = load h1 (Some a)))"
proof -
  obtain x where x: "parseRulesHelper uT uL [] None s = ([x], Some 0)"
    using parseRulesHelper_fresh [of uT uL "[]" None s] by auto
  have p1: "parseRulesHelper uT uL h1 r1 s = (h1 @ [x], Some (length h1))"
    using parseRulesHelper_same [of uT uL h1 r1 s] by (simp add: x)
  have p2: "parseRulesHelper uT uL h2 r2 s = (h2 @ [x], Some (length h2))"
    using parseRulesHelper_same [of uT uL h2 r2 s] by (simp add: x)
  have k1: "ParseRulesWithoutKomi uT uL h1 r1 s komi =
      Inr (h1 @ [x\<lparr>Komi := komi\<rparr>], Some (length h1))"
    by (simp add: ParseRulesWithoutKomi_def p1 update_def)
  have k2: "ParseRulesWithoutKomi uT uL h2 r2 s komi =
      Inr (h2 @ [x\<lparr>Komi := komi\<rparr>], Some (length h2))"
    by (simp add: ParseRulesWithoutKomi_def p2 update_def)
  show ?thesis
    by (simp add: ParseRules_def p1 p2 k1 k2 load_def nth_append)
qed

theorem parse_independent_of_receiver_witness:
  "load (fst (ParseRules id id [spec_Chinese] (Some 0) ''aga'')) (Some 0) = Inr spec_Chinese \<and>
   (\<exists>x. ParseRulesWithoutKomi id id [spec_Chinese] (Some 0) ''aga'' komi_6_5 =
          Inr ([spec_Chinese, x], Some 1) \<and>
        ParseRulesWithoutKomi id id [] None ''aga'' komi_6_5 = Inr ([x], Some 0) \<and>
        Komi x = komi_6_5)"
  using parse_independent_of_receiver [of id id "[spec_Chinese]" "Some 0" "''aga''" "[]" None
      komi_6_5]
  by (simp add: load_def)

subsection \<open>Facts about \<open>float32\<close> conversions\<close>

declare bit_length.simps [simp del]

lemma bit_length_numeral:
  "bit_length (numeral n) = Suc (bit_length (numeral n div 2))"
  "bit_length 0 = 0" "bit_length (Suc 0) = Suc 0"
  by (simp_all add: bit_length.simps [of "numeral n"] bit_length.simps [of 0]
      bit_length.simps [of "Suc 0"])

text \<open>The komi constants denote the numbers of their names.\<close>

lemma preset_komi_values: "f_val komi_7_5 = 15 / 2 \<and> f_val komi_7_0 = 7"
  by (simp add: f_val_def f_mant_def f_bexp_def pow2_def komi_7_5_def komi_7_0_def)

lemma komi_6_5_val: "is_finite komi_6_5 \<and> f_val komi_6_5 = 13 / 2"
  by (simp add: is_finite_def f_val_def f_mant_def f_bexp_def pow2_def komi_6_5_def)

lemma komi_6_5_trunc: "f_trunc komi_6_5 = 6"
  by (simp add: f_trunc_def f_mant_def f_bexp_def komi_6_5_def)

lemma komi_6_5_to_int: "f32_to_int oor komi_6_5 = 6"
  by (simp add: f32_to_int_def komi_6_5_trunc) (simp add: is_finite_def komi_6_5_def)

lemma komi_6_5_doubled: "f32_mul2 komi_6_5 = Float32 False 130 0x500000"
  by (simp add: f32_mul2_def komi_6_5_def)

lemma twelve_to_f32: "int_to_f32 12 = Float32 False 130 0x400000"
  by (simp add: int_to_f32_def Let_def bit_length_numeral)

lemma bit_length_bounds:
  "0 < a \<Longrightarrow> 2 ^ (bit_length a - 1) \<le> a \<and> a < 2 ^ bit_length a"
proof (induction a rule: bit_length.induct)
  case (1 n)
  show ?case
  proof (cases "n div 2 = 0")
    case True
    with "1.prems" have "n = 1" by (simp add: div_eq_0_iff)
    then show ?thesis by (simp add: bit_length_numeral)
  next
    case False
    then have pos: "0 < n div 2" by simp
    with "1.prems" "1.IH" have ih: "2 ^ (bit_length (n div 2) - 1) \<le> n div 2"
      "n div 2 < 2 ^ bit_length (n div 2)" by simp_all
    have l: "bit_length n = Suc (bit_length (n div 2))"
      using "1.prems" by (simp add: bit_length.simps [of n])
    have lpos: "0 < bit_length (n div 2)"
      using pos by (simp add: bit_length.simps [of "n div 2"])
    then have "(2::nat) ^ bit_length (n div 2) = 2 * 2 ^ (bit_length (n div 2) - 1)"
      by (cases "bit_length (n div 2)") simp_all
    with ih have "2 ^ bit_length (n div 2) \<le> n" "n < 2 * 2 ^ bit_length (n div 2)"
      by linarith+
    then show ?thesis by (simp add: l)
  qed
qed

lemma bit_length_pos: "0 < a \<Longrightarrow> 0 < bit_length a"
  by (simp add: bit_length.simps [of a])

lemma bit_length_le: "a < 2 ^ n \<Longrightarrow> bit_length a \<le> n"
proof (cases "a = 0")
  case True
  then show ?thesis by (simp add: bit_length.simps [of 0])
next
  case False
  assume less: "a < 2 ^ n"
  from False have "2 ^ (bit_length a - 1) \<le> a"
    using bit_length_bounds [of a] by simp
  from this less have "(2::nat) ^ (bit_length a - 1) < 2 ^ n"
    by (rule le_less_trans)
  then have "bit_length a - 1 < n"
    by simp
  then show ?thesis by simp
qed

lemma f_mant_less: "f_mant x < 2 ^ 24"
proof -
  have "unat (f_frac x) < 2 ^ 23"
    using unsigned_less [of "f_frac x", where 'a = nat] by simp
  then show ?thesis by (simp add: f_mant_def)
qed

lemma spec_truncate_of_int: "spec_truncate (of_int z) = z"
  by (simp add: spec_truncate_def)

lemma f_trunc_spec: "f_trunc x = spec_truncate (f_val x)"
proof (cases "0 \<le> f_bexp x")
  case True
  then have "f_val x =
      of_int ((if f_sign x then - 1 else 1) * (int (f_mant x) * 2 ^ nat (f_bexp x)))"
    by (simp add: f_val_def pow2_def)
  then show ?thesis
    using True by (simp only: spec_truncate_of_int f_trunc_def if_True)
next
  case False
  define k where "k = nat (- f_bexp x)"
  define y :: rat where "y = of_nat (f_mant x) / of_nat (2 ^ k)"
  have fl: "\<lfloor>y\<rfloor> = int (f_mant x) div 2 ^ k"
    unfolding y_def by (simp only: floor_divide_of_nat_eq) (simp add: zdiv_int)
  have y0: "0 \<le> y" by (simp add: y_def)
  have val: "f_val x = (if f_sign x then - y else y)"
    using False by (simp add: f_val_def pow2_def y_def k_def)
  have tr: "f_trunc x = (if f_sign x then - \<lfloor>y\<rfloor> else \<lfloor>y\<rfloor>)"
    using False by (simp add: f_trunc_def fl k_def)
  show ?thesis
  proof (cases "f_sign x")
    case False
    then show ?thesis using y0 by (simp add: val tr spec_truncate_def)
  next
    case True
    show ?thesis
    proof (cases "y = 0")
      case True
      with \<open>f_sign x\<close> show ?thesis by (simp add: val tr spec_truncate_def)
    next
      case False
      with y0 have "\<not> 0 \<le> - y" by simp
      with \<open>f_sign x\<close> show ?thesis by (simp add: val tr spec_truncate_def ceiling_minus)
    qed
  qed
qed

lemma spec_truncate_range:
  assumes "- (2 ^ 63) \<le> q" "q < 2 ^ 63"
  shows "- (2 ^ 63) \<le> spec_truncate q \<and> spec_truncate q < 2 ^ 63"
proof (cases "0 \<le> q")
  case True
  then have "0 \<le> \<lfloor>q\<rfloor>" by simp
  moreover have "\<lfloor>q\<rfloor> < 2 ^ 63"
    using assms(2) by (simp add: floor_less_iff)
  ultimately show ?thesis using True by (simp add: spec_truncate_def)
next
  case False
  then have "\<lceil>q\<rceil> \<le> 0" by (simp add: ceiling_le_iff)
  moreover have "- (2 ^ 63) \<le> \<lceil>q\<rceil>"
    using assms(1) by (simp add: le_ceiling_iff)
  ultimately show ?thesis using False by (simp add: spec_truncate_def)
qed

lemma f_trunc_abs:
  "nat \<bar>f_trunc x\<bar> =
     (if 0 \<le> f_bexp x then f_mant x * 2 ^ nat (f_bexp x)
      else f_mant x div 2 ^ nat (- f_bexp x))"
proof -
  define v :: int where
    "v = (if 0 \<le> f_bexp x then int (f_mant x) * 2 ^ nat (f_bexp x)
          else int (f_mant x) div 2 ^ nat (- f_bexp x))"
  have v: "v = int (if 0 \<le> f_bexp x then f_mant x * 2 ^ nat (f_bexp x)
      else f_mant x div 2 ^ nat (- f_bexp x))"
    by (simp add: v_def zdiv_int)
  have "f_trunc x = (if f_sign x then - 1 else 1) * v"
    by (simp add: f_trunc_def v_def)
  then have "\<bar>f_trunc x\<bar> = \<bar>v\<bar>" by (simp add: abs_mult)
  also have "\<dots> = v" unfolding v by (rule abs_of_nat)
  finally have "nat \<bar>f_trunc x\<bar> = nat v" by simp
  then show ?thesis unfolding v by (simp only: nat_int)
qed

lemma f_trunc_significant:
  assumes "a = nat \<bar>f_trunc x\<bar>"
  shows "bit_length a \<le> 24 \<or> 2 ^ (bit_length a - 24) dvd a"
proof (cases "0 \<le> f_bexp x")
  case False
  then have "a = f_mant x div 2 ^ nat (- f_bexp x)"
    using assms by (simp add: f_trunc_abs)
  then have "a \<le> f_mant x" by simp
  then have "a < 2 ^ 24" using f_mant_less [of x] by simp
  then show ?thesis by (simp add: bit_length_le)
next
  case True
  define e where "e = nat (f_bexp x)"
  have a: "a = f_mant x * 2 ^ e"
    using assms True by (simp add: f_trunc_abs e_def)
  show ?thesis
  proof (cases "bit_length a \<le> 24")
    case True
    then show ?thesis by simp
  next
    case False
    then have "0 < a" by (cases "a = 0") (simp_all add: bit_length.simps [of 0])
    then have "2 ^ (bit_length a - 1) \<le> a" using bit_length_bounds by simp
    also have "a < 2 ^ 24 * 2 ^ e"
      using f_mant_less [of x] by (simp add: a)
    finally have "(2::nat) ^ (bit_length a - 1) < 2 ^ (24 + e)"
      by (simp add: power_add)
    then have "bit_length a - 1 < 24 + e" by simp
    then have "bit_length a - 24 \<le> e" by simp
    then have "(2::nat) ^ (bit_length a - 24) dvd 2 ^ e"
      by (simp add: le_imp_power_dvd)
    then show ?thesis by (simp add: a)
  qed
qed

lemma decode_normal:
  fixes e :: "8 word" and f :: "23 word"
  assumes e: "unat e = 126 + l" and l: "0 < l" "l \<le> 64"
    and f: "unat f = m - 2 ^ 23" and m: "2 ^ 23 \<le> m"
  shows "is_finite (Float32 s e f) \<and>
         f_val (Float32 s e f) = (if s then - 1 else 1) * of_nat m * pow2 (int l - 24)"
proof -
  have e255: "e \<noteq> 255"
  proof
    assume "e = 255"
    then have "unat e = 255" by simp
    with e l show False by simp
  qed
  have e0: "e \<noteq> 0"
  proof
    assume "e = 0"
    then have "unat e = 0" by simp
    with e show False by simp
  qed
  have "f_mant (Float32 s e f) = m"
    using e0 f m by (simp add: f_mant_def)
  moreover have "f_bexp (Float32 s e f) = int l - 24"
    using e0 e by (simp add: f_bexp_def)
  ultimately show ?thesis
    using e255 by (simp add: f_val_def is_finite_def)
qed

lemma unat_exponent:
  "l \<le> 64 \<Longrightarrow> unat (of_nat (126 + l) :: 8 word) = 126 + l"
  by (subst unat_of_nat) simp

lemma unat_fraction:
  "m < 2 ^ 24 \<Longrightarrow> unat (of_nat (m - 2 ^ 23) :: 23 word) = m - 2 ^ 23"
  by (subst unat_of_nat) simp

lemma sint_word_of_int_64:
  "- (2 ^ 63) \<le> t \<Longrightarrow> t < 2 ^ 63 \<Longrightarrow> sint (word_of_int t :: 64 word) = t"
  by (simp add: signed_of_int signed_take_bit_int_eq_self)

lemma int_to_f32_exact:
  assumes range: "- (2 ^ 63) \<le> t" "t < 2 ^ 63"
    and sig: "bit_length (nat \<bar>t\<bar>) \<le> 24 \<or> 2 ^ (bit_length (nat \<bar>t\<bar>) - 24) dvd nat \<bar>t\<bar>"
  shows "is_finite (int_to_f32 (word_of_int t)) \<and>
         f_val (int_to_f32 (word_of_int t)) = of_int t"
proof (cases "t = 0")
  case True
  then show ?thesis
    by (simp add: int_to_f32_def is_finite_def f_val_def f_mant_def)
next
  case False
  define a where "a = nat \<bar>t\<bar>"
  define l where "l = bit_length a"
  define m where "m = (if l \<le> 24 then a * 2 ^ (24 - l) else round_half_even a (l - 24))"
  have s: "sint (word_of_int t :: 64 word) = t"
    using range by (rule sint_word_of_int_64)
  have apos: "0 < a" using False by (simp add: a_def)
  have "a \<le> 2 ^ 63" using range by (simp add: a_def nat_le_iff abs_le_iff)
  then have "a < 2 ^ 64" by simp
  then have l64: "l \<le> 64" unfolding l_def by (rule bit_length_le)
  have lpos: "0 < l" unfolding l_def using apos by (rule bit_length_pos)
  have lo: "2 ^ (l - 1) \<le> a" and hi: "a < 2 ^ l"
    using bit_length_bounds [OF apos] by (simp_all add: l_def)
  have mval: "m * 2 ^ (l - 24) = a * 2 ^ (24 - l)"
  proof (cases "l \<le> 24")
    case True
    then show ?thesis by (simp add: m_def)
  next
    case False
    with sig have "2 ^ (l - 24) dvd a" by (simp add: a_def l_def)
    then have "a mod 2 ^ (l - 24) = 0" "a div 2 ^ (l - 24) * 2 ^ (l - 24) = a"
      by (simp_all add: dvd_div_mult_self)
    with False show ?thesis by (simp add: m_def round_half_even_def)
  qed
  have mlo: "2 ^ 23 \<le> m" and mhi: "m < 2 ^ 24"
  proof -
    have "(2::nat) ^ (l - 1) * 2 ^ (24 - l) \<le> a * 2 ^ (24 - l)"
      using lo by simp
    moreover have "a * 2 ^ (24 - l) < 2 ^ l * 2 ^ (24 - l)"
      using hi by simp
    ultimately have "(2::nat) ^ (l - 1 + (24 - l)) \<le> m * 2 ^ (l - 24)"
      "m * 2 ^ (l - 24) < 2 ^ (l + (24 - l))"
      by (simp_all only: mval power_add)
    moreover have "l - 1 + (24 - l) = 23 + (l - 24)" "l + (24 - l) = 24 + (l - 24)"
      using lpos by simp_all
    ultimately have "(2::nat) ^ 23 * 2 ^ (l - 24) \<le> m * 2 ^ (l - 24)"
      "m * 2 ^ (l - 24) < 2 ^ 24 * 2 ^ (l - 24)"
      by (simp_all only: power_add)
    then show "2 ^ 23 \<le> m" "m < 2 ^ 24" by simp_all
  qed
  have eq: "int_to_f32 (word_of_int t) =
      Float32 (t < 0) (of_nat (126 + l)) (of_nat (m - 2 ^ 23))"
  proof -
    have "int_to_f32 (word_of_int t) =
        (if a = 0 then Float32 False 0 0
         else if m = 2 ^ 24 then Float32 (t < 0) (of_nat (127 + l)) 0
         else Float32 (t < 0) (of_nat (126 + l)) (of_nat (m - 2 ^ 23)))"
      by (simp only: int_to_f32_def Let_def s m_def l_def a_def)
    then show ?thesis using apos mhi by simp
  qed
  have scale: "(of_nat m :: rat) * pow2 (int l - 24) = of_nat a"
  proof (cases "l \<le> 24")
    case True
    with mval have "m = a * 2 ^ (24 - l)" by simp
    moreover from True have "pow2 (int l - 24) = 1 / 2 ^ (24 - l)"
      by (cases "l = 24") (simp_all add: pow2_def nat_diff_distrib')
    ultimately show ?thesis by simp
  next
    case False
    with mval have "of_nat a = (of_nat (m * 2 ^ (l - 24)) :: rat)" by simp
    moreover from False have "pow2 (int l - 24) = 2 ^ (l - 24)"
      by (simp add: pow2_def nat_diff_distrib')
    ultimately show ?thesis by simp
  qed
  have "is_finite (Float32 (t < 0) (of_nat (126 + l)) (of_nat (m - 2 ^ 23))) \<and>
      f_val (Float32 (t < 0) (of_nat (126 + l)) (of_nat (m - 2 ^ 23))) =
        (if t < 0 then - 1 else 1) * of_nat m * pow2 (int l - 24)"
    using unat_exponent [OF l64] lpos l64 unat_fraction [OF mhi] mlo
    by (rule decode_normal)
  moreover have "(if t < 0 then - 1 else 1) * (of_nat a :: rat) = of_int t"
    by (simp add: a_def)
  ultimately show ?thesis
    unfolding eq by (simp add: scale mult.assoc)
qed

lemma finite_not_special: "is_finite x \<Longrightarrow> \<not> is_nan x \<and> \<not> is_inf x"
  by (simp add: is_finite_def is_nan_def is_inf_def)

lemma komi_is_integer_in_range:
  assumes fin: "is_finite k" and range: "- (2 ^ 63) \<le> f_val k" "f_val k < 2 ^ 63"
  shows "f32_eq (int_to_f32 (f32_to_int oor k)) k =
           (of_int (spec_truncate (f_val k)) = f_val k)"
proof -
  have tr: "- (2 ^ 63) \<le> f_trunc k" "f_trunc k < 2 ^ 63"
    using spec_truncate_range [OF range] by (simp_all add: f_trunc_spec)
  then have conv: "f32_to_int oor k = word_of_int (f_trunc k)"
    using fin by (simp add: f32_to_int_def)
  have "is_finite (int_to_f32 (word_of_int (f_trunc k))) \<and>
      f_val (int_to_f32 (word_of_int (f_trunc k))) = of_int (f_trunc k)"
    using tr f_trunc_significant [OF refl, of k] by (rule int_to_f32_exact)
  then show ?thesis
    using finite_not_special [OF fin]
      finite_not_special [of "int_to_f32 (word_of_int (f_trunc k))"]
    by (simp add: conv f32_eq_def f_trunc_spec)
qed

lemma komi_6_0_val: "is_finite komi_6_0 \<and> f_val komi_6_0 = 6"
  by (simp add: is_finite_def f_val_def f_mant_def f_bexp_def pow2_def komi_6_0_def)

lemma komi_6_0_integral: "of_int (spec_truncate (f_val komi_6_0)) = f_val komi_6_0"
  by (simp add: komi_6_0_val spec_truncate_def)

lemma thirteen_halves_not_integer: "rat_of_int z * 2 \<noteq> 13"
proof
  assume "rat_of_int z * 2 = 13"
  then have "rat_of_int (z * 2) = rat_of_int 13" by simp
  then have "z * 2 = 13" by (simp only: of_int_eq_iff)
  then show False by presburger
qed

lemma komi_6_5_not_integral: "of_int (spec_truncate (f_val komi_6_5)) \<noteq> f_val komi_6_5"
  by (simp add: komi_6_5_val thirteen_halves_not_integer)

lemma pow2_Suc: "pow2 (b + 1) = 2 * pow2 b"
proof (cases "0 \<le> b")
  case True
  then show ?thesis by (simp add: pow2_def nat_add_distrib)
next
  case False
  then have "nat (- b) = Suc (nat (- (b + 1)))" by simp
  then show ?thesis using False by (simp add: pow2_def)
qed

lemma f32_mul2_val:
  assumes "unat (f_exp x) < 254"
  shows "is_finite (f32_mul2 x) \<and> f_val (f32_mul2 x) = 2 * f_val x"
proof -
  have frac: "unat (f_frac x) < 2 ^ 23"
    using unsigned_less [of "f_frac x", where 'a = nat] by simp
  have ne: "f_exp x \<noteq> 255" "f_exp x \<noteq> 254" using assms by auto
  show ?thesis
  proof (cases "f_exp x = 0")
    case True
    show ?thesis
    proof (cases "unat (f_frac x) < 2 ^ 22")
      case small: True
      then have "unat (2 * f_frac x) = 2 * unat (f_frac x)"
        by (simp add: unat_word_ariths)
      then show ?thesis
        using True small
        by (simp add: f32_mul2_def is_finite_def f_val_def f_mant_def f_bexp_def)
    next
      case large: False
      then have "unat (2 * f_frac x) = 2 * unat (f_frac x) - 2 ^ 23"
        using frac by (simp add: unat_word_ariths mod_if)
      then show ?thesis
        using True large
        by (simp add: f32_mul2_def is_finite_def f_val_def f_mant_def f_bexp_def)
    qed
  next
    case False
    have e: "unat (f_exp x + 1) = unat (f_exp x) + 1"
      using assms by (simp add: unat_word_ariths)
    then have "f_exp x + 1 \<noteq> 0" "f_exp x + 1 \<noteq> 255"
      using assms by auto
    moreover have "int (unat (f_exp x + 1)) - 150 = (int (unat (f_exp x)) - 150) + 1"
      by (simp only: e)
    ultimately show ?thesis
      using False ne
      by (simp only: f32_mul2_def is_finite_def f_val_def f_mant_def f_bexp_def if_False
          float32.sel pow2_Suc) simp
  qed
qed

lemma integer_exponent: "0 \<le> f_bexp x \<Longrightarrow> f_val x \<in> \<int>"
proof -
  assume "0 \<le> f_bexp x"
  then have "f_val x =
      of_int ((if f_sign x then - 1 else 1) * (int (f_mant x) * 2 ^ nat (f_bexp x)))"
    by (simp add: f_val_def pow2_def)
  then show ?thesis by (simp only: Ints_of_int)
qed

lemma komiIsIntOrHalfInt_rejects_fractions:
  assumes frac: "f_val x \<notin> \<int>"
  shows "\<not> komiIsIntOrHalfInt oor x"
proof -
  have neg: "f_bexp x < 0"
    using frac integer_exponent [of x] by force
  then have small: "uint (f_exp x) < 150"
    by (simp add: f_bexp_def split: if_splits)
  have "uint (f_exp x) = int (unat (f_exp x))" by simp
  with small have e: "unat (f_exp x) < 254" by linarith
  then have fin: "is_finite x" by (auto simp: is_finite_def)
  define n where "n = f_trunc x"
  have "nat \<bar>n\<bar> = f_mant x div 2 ^ nat (- f_bexp x)"
    using neg by (simp add: n_def f_trunc_abs)
  also have "\<dots> \<le> f_mant x div 2 ^ 1"
    using neg by (intro div_le_mono2 power_increasing) simp_all
  also have "\<dots> < 2 ^ 23"
    using f_mant_less [of x] by simp
  finally have a: "nat \<bar>n\<bar> < 2 ^ 23" .
  then have "\<bar>n\<bar> < 2 ^ 23" by simp
  then have n: "- (2 ^ 23) < n" "n < 2 ^ 23" by (simp_all add: abs_less_iff)
  then have "f32_to_int oor x = word_of_int n"
    using fin by (simp add: f32_to_int_def n_def)
  then have conv: "f32_to_int oor x * 2 = word_of_int (2 * n)" by simp
  have "nat \<bar>2 * n\<bar> < 2 ^ 24" using a by (simp add: abs_mult nat_mult_distrib)
  then have "bit_length (nat \<bar>2 * n\<bar>) \<le> 24" by (rule bit_length_le)
  with n have exact: "is_finite (int_to_f32 (word_of_int (2 * n))) \<and>
      f_val (int_to_f32 (word_of_int (2 * n))) = of_int (2 * n)"
    by (intro int_to_f32_exact) simp_all
  have double: "is_finite (f32_mul2 x) \<and> f_val (f32_mul2 x) = 2 * f_val x"
    using e by (rule f32_mul2_val)
  have "f_val x \<noteq> of_int n"
    using frac by (metis Ints_of_int)
  then have "\<not> f32_eq (f32_mul2 x) (int_to_f32 (word_of_int (2 * n)))"
    using exact double finite_not_special [of "f32_mul2 x"]
      finite_not_special [of "int_to_f32 (word_of_int (2 * n))"]
    by (simp add: f32_eq_def)
  then show ?thesis
    by (simp add: komiIsIntOrHalfInt_def conv)
qed

subsection \<open>Komi predicates\<close>

text \<open>
  C1. The komi 6.5 is finite and twice it is the integer 13, yet
  \<open>komiIsIntOrHalfInt\<close> returns \<open>false\<close> for it, whatever the platform does on
  conversions out of range: the code doubles the truncated komi, \<open>int(komi)*2 = 12\<close>,
  and compares it with \<open>komi*2 = 13\<close>. By \<open>komiIsIntOrHalfInt_rejects_fractions\<close>
  the same happens for every komi that is not an integer.
\<close>

theorem half_integer_komi_rejected:
  "is_finite komi_6_5 \<and> 2 * f_val komi_6_5 = 13 \<and> komiIsIntOrHalfInt oor komi_6_5 = False"
proof -
  have "\<not> f32_eq (Float32 False 130 0x500000) (Float32 False 130 0x400000)"
    by (simp add: f32_eq_def is_nan_def is_inf_def f_val_def f_mant_def f_bexp_def pow2_def)
  then have "komiIsIntOrHalfInt oor komi_6_5 = False"
    by (simp add: komiIsIntOrHalfInt_def komi_6_5_to_int komi_6_5_doubled twelve_to_f32)
  then show ?thesis
    using komi_6_5_val by simp
qed

subsection \<open>Integrality of the game result\<close>

text \<open>
  C8, as the code has it. For every ruleset whose komi is finite and at least
  \<open>- 2 ^ 63\<close> and below \<open>2 ^ 63\<close> (so that its integer part fits the \<open>int\<close>),
  \<open>GameResultWillBeInteger\<close> is \<open>(truncate(komi) == komi) != hasButton\<close>, on every
  platform. It is true for komi 6.0 without button, false for komi 6.5 without button,
  true for komi 6.5 with button and false for komi 6.0 with button.
\<close>

theorem game_result_integer:
  "(load h r = Inr x \<and> is_finite (Komi x) \<and>
    - (2 ^ 63) \<le> f_val (Komi x) \<and> f_val (Komi x) < 2 ^ 63 \<longrightarrow>
      GameResultWillBeInteger oor h r =
        Inr ((of_int (spec_truncate (f_val (Komi x))) = f_val (Komi x)) \<noteq> HasButton x)) \<and>
   (load h r = Inr x \<and> Komi x = komi_6_0 \<and> \<not> HasButton x \<longrightarrow>
      GameResultWillBeInteger oor h r = Inr True) \<and>
   (load h r = Inr x \<and> Komi x = komi_6_5 \<and> \<not> HasButton x \<longrightarrow>
      GameResultWillBeInteger oor h r = Inr False) \<and>
   (load h r = Inr x \<and> Komi x = komi_6_5 \<and> HasButton x \<longrightarrow>
      GameResultWillBeInteger oor h r = Inr True) \<and>
   (load h r = Inr x \<and> Komi x = komi_6_0 \<and> HasButton x \<longrightarrow>
      GameResultWillBeInteger oor h r = Inr False)"
proof -
  have general: "GameResultWillBeInteger oor h r =
      Inr ((of_int (spec_truncate (f_val (Komi x))) = f_val (Komi x)) \<noteq> HasButton x)"
    if "load h r = Inr x" "is_finite (Komi x)"
      "- (2 ^ 63) \<le> f_val (Komi x)" "f_val (Komi x) < 2 ^ 63"
    using that by (simp add: GameResultWillBeInteger_def komi_is_integer_in_range)
  have six: "GameResultWillBeInteger oor h r = Inr (\<not> HasButton x)"
    if "load h r = Inr x" "Komi x = komi_6_0"
    using general that komi_6_0_val komi_6_0_integral by simp
  have six_half: "GameResultWillBeInteger oor h r = Inr (HasButton x)"
    if "load h r = Inr x" "Komi x = komi_6_5"
    using general that komi_6_5_val by (simp add: thirteen_halves_not_integer)
  show ?thesis
    using general six six_half by simp
qed

theorem game_result_integer_witness:
  "is_finite komi_6_0 \<and> - (2 ^ 63) \<le> f_val komi_6_0 \<and> f_val komi_6_0 < 2 ^ 63 \<and>
   GameResultWillBeInteger (\<lambda>_. 0) [spec_TrompTaylorish\<lparr>Komi := komi_6_0\<rparr>] (Some 0) =
     Inr ((of_int (spec_truncate (f_val komi_6_0)) = f_val komi_6_0) \<noteq> False) \<and>
   GameResultWillBeInteger (\<lambda>_. 0) [spec_TrompTaylorish\<lparr>Komi := komi_6_0\<rparr>] (Some 0) =
     Inr True \<and>
   GameResultWillBeInteger (\<lambda>_. 0) [spec_TrompTaylorish\<lparr>Komi := komi_6_5\<rparr>] (Some 0) =
     Inr False \<and>
   GameResultWillBeInteger (\<lambda>_. 0)
     [spec_TrompTaylorish\<lparr>Komi := komi_6_5, HasButton := True\<rparr>] (Some 0) = Inr True \<and>
   GameResultWillBeInteger (\<lambda>_. 0)
     [spec_TrompTaylorish\<lparr>Komi := komi_6_0, HasButton := True\<rparr>] (Some 0) = Inr False"
proof -
  have obj: "load [x] (Some 0) = Inr x" for x
    by (simp add: load_def)
  have range: "is_finite komi_6_0 \<and> - (2 ^ 63) \<le> f_val komi_6_0 \<and> f_val komi_6_0 < 2 ^ 63"
    using komi_6_0_val by simp
  have general:
    "GameResultWillBeInteger (\<lambda>_. 0) [spec_TrompTaylorish\<lparr>Komi := komi_6_0\<rparr>] (Some 0) =
       Inr ((of_int (spec_truncate (f_val komi_6_0)) = f_val komi_6_0) \<noteq> False)"
    using
      game_result_integer [of "[spec_TrompTaylorish\<lparr>Komi := komi_6_0\<rparr>]" "Some 0"
        "spec_TrompTaylorish\<lparr>Komi := komi_6_0\<rparr>" "\<lambda>_. 0", THEN conjunct1]
      obj range
    by (simp add: spec_TrompTaylorish_def)
  have six:
    "GameResultWillBeInteger (\<lambda>_. 0) [spec_TrompTaylorish\<lparr>Komi := komi_6_0\<rparr>] (Some 0) =
       Inr True"
    using
      game_result_integer [of "[spec_TrompTaylorish\<lparr>Komi := komi_6_0\<rparr>]" "Some 0"
        "spec_TrompTaylorish\<lparr>Komi := komi_6_0\<rparr>" "\<lambda>_. 0",
        THEN conjunct2, THEN conjunct1]
      obj
    by (simp add: spec_TrompTaylorish_def)
  have half:
    "GameResultWillBeInteger (\<lambda>_. 0) [spec_TrompTaylorish\<lparr>Komi := komi_6_5\<rparr>] (Some 0) =
       Inr False"
    using
      game_result_integer [of "[spec_TrompTaylorish\<lparr>Komi := komi_6_5\<rparr>]" "Some 0"
        "spec_TrompTaylorish\<lparr>Komi := komi_6_5\<rparr>" "\<lambda>_. 0",
        THEN conjunct2, THEN conjunct2, THEN conjunct1]
      obj
    by (simp add: spec_TrompTaylorish_def)
  have half_button:
    "GameResultWillBeInteger (\<lambda>_. 0)
       [spec_TrompTaylorish\<lparr>Komi := komi_6_5, HasButton := True\<rparr>] (Some 0) = Inr True"
    using
      game_result_integer [of "[spec_TrompTaylorish\<lparr>Komi := komi_6_5, HasButton := True\<rparr>]"
        "Some 0" "spec_TrompTaylorish\<lparr>Komi := komi_6_5, HasButton := True\<rparr>" "\<lambda>_. 0",
        THEN conjunct2, THEN conjunct2, THEN conjunct2, THEN conjunct1]
      obj
    by (simp add: spec_TrompTaylorish_def)
  have six_button:
    "GameResultWillBeInteger (\<lambda>_. 0)
       [spec_TrompTaylorish\<lparr>Komi := komi_6_0, HasButton := True\<rparr>] (Some 0) = Inr False"
    using
      game_result_integer [of "[spec_TrompTaylorish\<lparr>Komi := komi_6_0, HasButton := True\<rparr>]"
        "Some 0" "spec_TrompTaylorish\<lparr>Komi := komi_6_0, HasButton := True\<rparr>" "\<lambda>_. 0",
        THEN conjunct2, THEN conjunct2, THEN conjunct2, THEN conjunct2]
      obj
    by (simp add: spec_TrompTaylorish_def)
  from range general six half half_button six_button show ?thesis
    by (simp only: simp_thms)
qed

lemma komi_2_pow_64_val: "is_finite komi_2_pow_64 \<and> f_val komi_2_pow_64 = 2 ^ 64"
  by (simp add: is_finite_def f_val_def f_mant_def f_bexp_def pow2_def komi_2_pow_64_def)

lemma komi_2_pow_64_to_int:
  "f32_to_int (\<lambda>_. 0x8000000000000000) komi_2_pow_64 = 0x8000000000000000"
  by (simp add: f32_to_int_def f_trunc_def f_mant_def f_bexp_def komi_2_pow_64_def)

lemma min_int_to_f32: "int_to_f32 0x8000000000000000 = Float32 True 190 0"
  by (simp add: int_to_f32_def Let_def bit_length_numeral round_half_even_def)

text \<open>
  C8 as stated, for every ruleset, fails at the komi \<open>2 ^ 64\<close>, a finite \<open>float32\<close>
  that is an integer: \<open>truncate(komi) == komi\<close> holds and there is no button, so the
  claim gives \<open>true\<close>. The conversion \<open>int(komi)\<close> is out of range; with the value
  \<open>0x8000000000000000\<close> that amd64 yields there, \<open>float32(int(komi))\<close> is
  \<open>- 2 ^ 63\<close> and the code returns \<open>false\<close>.
\<close>

theorem huge_komi_not_integer:
  "is_finite komi_2_pow_64 \<and>
   of_int (spec_truncate (f_val komi_2_pow_64)) = f_val komi_2_pow_64 \<and>
   \<not> HasButton (spec_TrompTaylorish\<lparr>Komi := komi_2_pow_64\<rparr>) \<and>
   GameResultWillBeInteger (\<lambda>_. 0x8000000000000000)
     [spec_TrompTaylorish\<lparr>Komi := komi_2_pow_64\<rparr>] (Some 0) = Inr False"
proof -
  have "\<not> f32_eq (Float32 True 190 0) komi_2_pow_64"
    by (simp add: f32_eq_def is_nan_def is_inf_def f_val_def f_mant_def f_bexp_def pow2_def
        komi_2_pow_64_def)
  then have "GameResultWillBeInteger (\<lambda>_. 0x8000000000000000)
     [spec_TrompTaylorish\<lparr>Komi := komi_2_pow_64\<rparr>] (Some 0) = Inr False"
    by (simp add: GameResultWillBeInteger_def load_def komi_2_pow_64_to_int min_int_to_f32
        spec_TrompTaylorish_def)
  moreover have "of_int (spec_truncate (f_val komi_2_pow_64)) = f_val komi_2_pow_64"
    by (simp add: komi_2_pow_64_val spec_truncate_def)
  ultimately show ?thesis
    using komi_2_pow_64_val by (simp add: spec_TrompTaylorish_def)
qed

text \<open>
  The same on every platform: no \<open>int\<close> converts to the \<open>float32\<close> \<open>2 ^ 64\<close>,
  so the code returns \<open>false\<close> there whatever the conversion out of range yields.
\<close>

lemma unat_exponent_carry:
  "l \<le> 64 \<Longrightarrow> unat (of_nat (127 + l) :: 8 word) = 127 + l"
  by (subst unat_of_nat) simp

lemma int_to_f32_exponent: "unat (f_exp (int_to_f32 n)) \<le> 190"
proof -
  define a where "a = nat \<bar>sint n\<bar>"
  define l where "l = bit_length a"
  define m where "m = (if l \<le> 24 then a * 2 ^ (24 - l) else round_half_even a (l - 24))"
  have eq: "int_to_f32 n =
      (if a = 0 then Float32 False 0 0
       else if m = 2 ^ 24 then Float32 (sint n < 0) (of_nat (127 + l)) 0
       else Float32 (sint n < 0) (of_nat (126 + l)) (of_nat (m - 2 ^ 23)))"
    by (simp only: int_to_f32_def Let_def m_def l_def a_def)
  have "- (2 ^ 63) \<le> sint n" "sint n < 2 ^ 63"
    using sint_ge [of n] sint_lt [of n] by simp_all
  then have a63: "a \<le> 2 ^ 63" by (simp add: a_def nat_le_iff abs_le_iff)
  then have "a < 2 ^ 64" by simp
  then have l64: "l \<le> 64" unfolding l_def by (rule bit_length_le)
  show ?thesis
  proof (cases "a = 0")
    case True
    then show ?thesis by (simp add: eq)
  next
    case False
    show ?thesis
    proof (cases "m = 2 ^ 24")
      case carry: True
      have "l \<noteq> 64"
      proof
        assume l: "l = 64"
        from False have "2 ^ (l - 1) \<le> a"
          using bit_length_bounds [of a] by (simp add: l_def)
        with a63 l have "a = 2 ^ 63" by simp
        with l have "m = 2 ^ 23" by (simp add: m_def round_half_even_def)
        with carry show False by simp
      qed
      with l64 have "l \<le> 63" by simp
      moreover have "unat (of_nat (127 + l) :: 8 word) = 127 + l"
        using l64 by (rule unat_exponent_carry)
      ultimately have "unat (of_nat (127 + l) :: 8 word) \<le> 190"
        by linarith
      moreover have "f_exp (int_to_f32 n) = of_nat (127 + l)"
        using False carry by (simp add: eq)
      ultimately show ?thesis by (simp only:)
    next
      case no_carry: False
      have "unat (of_nat (126 + l) :: 8 word) = 126 + l"
        using l64 by (rule unat_exponent)
      with l64 have "unat (of_nat (126 + l) :: 8 word) \<le> 190"
        by linarith
      moreover have "f_exp (int_to_f32 n) = of_nat (126 + l)"
        using False no_carry by (simp add: eq)
      ultimately show ?thesis by (simp only:)
    qed
  qed
qed

lemma pow2_le: "b \<le> 40 \<Longrightarrow> pow2 b \<le> 2 ^ 40"
proof (cases "0 \<le> b")
  case True
  assume "b \<le> 40"
  with True have "nat b \<le> 40" by simp
  then have "(2::rat) ^ nat b \<le> 2 ^ 40" by (rule power_increasing) simp
  with True show ?thesis by (simp add: pow2_def)
next
  case False
  have "1 / (2::rat) ^ nat (- b) \<le> 1" by simp
  also have "(1::rat) \<le> 2 ^ 40" by simp
  finally show ?thesis using False by (simp add: pow2_def)
qed

lemma pow2_nonneg: "0 \<le> pow2 b"
  by (simp add: pow2_def)

lemma small_exponent_value:
  assumes "unat (f_exp y) \<le> 190"
  shows "\<bar>f_val y\<bar> < 2 ^ 64"
proof -
  have "uint (f_exp y) = int (unat (f_exp y))" by simp
  with assms have "uint (f_exp y) \<le> 190" by linarith
  then have "f_bexp y \<le> 40" by (simp add: f_bexp_def)
  then have p: "pow2 (f_bexp y) \<le> 2 ^ 40" by (rule pow2_le)
  have m: "(of_nat (f_mant y) :: rat) < 2 ^ 24"
    using f_mant_less [of y] by (metis of_nat_less_iff of_nat_numeral of_nat_power)
  have "\<bar>f_val y\<bar> = of_nat (f_mant y) * pow2 (f_bexp y)"
    by (simp add: f_val_def abs_mult pow2_nonneg)
  also have "\<dots> \<le> of_nat (f_mant y) * 2 ^ 40"
    using p by (simp add: mult_left_mono)
  also have "\<dots> < 2 ^ 24 * 2 ^ 40"
    using m by simp
  finally show ?thesis by simp
qed

lemma int_to_f32_not_2_pow_64: "\<not> f32_eq (int_to_f32 n) komi_2_pow_64"
proof -
  have e: "unat (f_exp (int_to_f32 n)) \<le> 190" by (rule int_to_f32_exponent)
  then have "\<bar>f_val (int_to_f32 n)\<bar> < 2 ^ 64" by (rule small_exponent_value)
  then have "f_val (int_to_f32 n) \<noteq> f_val komi_2_pow_64"
    using komi_2_pow_64_val by auto
  moreover have "f_exp (int_to_f32 n) \<noteq> 255"
    using e by auto
  ultimately show ?thesis
    by (simp add: f32_eq_def is_inf_def is_nan_def komi_2_pow_64_def)
qed

lemma huge_komi_every_platform:
  "GameResultWillBeInteger oor [spec_TrompTaylorish\<lparr>Komi := komi_2_pow_64\<rparr>] (Some 0) =
     Inr False"
  by (simp add: GameResultWillBeInteger_def load_def int_to_f32_not_2_pow_64
      spec_TrompTaylorish_def)

end
